theory Spec2Isabelle
  imports Main "HOL-Library.Word"
begin

unbundle bit_operations_syntax

section \<open>Register offsets and bit masks\<close>

text \<open>
  \<^verbatim>\<open>uart_probe.c\<close> names registers and bits by the macros of the kernel header
  \<^verbatim>\<open>linux/serial_reg.h\<close>, which it includes. Their values are the 8250/16550 register
  map. Several names share one offset: the divisor latch bytes sit behind offsets 0 and
  1 while the DLAB bit of the line control register is set, and the FIFO control
  register (write only) shares offset 2 with the interrupt identification register
  (read only).
\<close>

type_synonym u8 = "8 word"
type_synonym u32 = "32 word"

definition UART_RX :: nat where "UART_RX = 0"
definition UART_TX :: nat where "UART_TX = 0"
definition UART_DLL :: nat where "UART_DLL = 0"
definition UART_DLM :: nat where "UART_DLM = 1"
definition UART_IER :: nat where "UART_IER = 1"
definition UART_IIR :: nat where "UART_IIR = 2"
definition UART_FCR :: nat where "UART_FCR = 2"
definition UART_LCR :: nat where "UART_LCR = 3"
definition UART_MCR :: nat where "UART_MCR = 4"
definition UART_LSR :: nat where "UART_LSR = 5"

definition UART_IER_RDI :: u8 where "UART_IER_RDI = 0x01"
definition UART_IER_THRI :: u8 where "UART_IER_THRI = 0x02"
definition UART_IIR_NO_INT :: u8 where "UART_IIR_NO_INT = 0x01"
definition UART_IIR_THRI :: u8 where "UART_IIR_THRI = 0x02"
definition UART_IIR_RDI :: u8 where "UART_IIR_RDI = 0x04"
definition UART_FCR_ENABLE_FIFO :: u8 where "UART_FCR_ENABLE_FIFO = 0x01"
definition UART_FCR_CLEAR_RCVR :: u8 where "UART_FCR_CLEAR_RCVR = 0x02"
definition UART_FCR_CLEAR_XMIT :: u8 where "UART_FCR_CLEAR_XMIT = 0x04"
definition UART_FCR_TRIGGER_1 :: u8 where "UART_FCR_TRIGGER_1 = 0x00"
definition UART_LCR_WLEN8 :: u8 where "UART_LCR_WLEN8 = 0x03"
definition UART_LCR_CONF_MODE_A :: u8 where "UART_LCR_CONF_MODE_A = 0x80"
definition UART_MCR_LOOP :: u8 where "UART_MCR_LOOP = 0x10"
definition UART_LSR_DR :: u8 where "UART_LSR_DR = 0x01"
definition UART_LSR_OE :: u8 where "UART_LSR_OE = 0x02"

definition FIFO_SIZE_MAX :: int where "FIFO_SIZE_MAX = 512"

lemmas uart_reg_defs =
  UART_RX_def UART_TX_def UART_DLL_def UART_DLM_def UART_IER_def UART_IIR_def
  UART_FCR_def UART_LCR_def UART_MCR_def UART_LSR_def

lemmas uart_bit_defs =
  UART_IER_RDI_def UART_IER_THRI_def UART_IIR_NO_INT_def UART_IIR_THRI_def
  UART_IIR_RDI_def UART_FCR_ENABLE_FIFO_def UART_FCR_CLEAR_RCVR_def
  UART_FCR_CLEAR_XMIT_def UART_FCR_TRIGGER_1_def UART_LCR_WLEN8_def
  UART_LCR_CONF_MODE_A_def UART_MCR_LOOP_def UART_LSR_DR_def UART_LSR_OE_def

section \<open>The port and the kernel services the probes call\<close>

text \<open>
  Everything a probe touches outside its own locals is reached through calls:
  \<^verbatim>\<open>port->serial_in\<close>, \<^verbatim>\<open>port->serial_out\<close>, \<^verbatim>\<open>udelay\<close>, \<^verbatim>\<open>mdelay\<close>,
  \<^verbatim>\<open>cpu_relax\<close> and the tick counter \<^verbatim>\<open>jiffies\<close>. The hardware (or a mock of it)
  together with the clock is a state machine over a state type \<open>'s\<close>; the record below
  holds its operations, and the two fields of the port structures that the probes
  read, \<^verbatim>\<open>port->fifosize\<close> and the shadow \<^verbatim>\<open>u8250p->fcr\<close>. A register read returns
  a byte and may change the state (reading the receive register pops the queue).

  \<^verbatim>\<open>jiffies\<close> is an \<^verbatim>\<open>unsigned long\<close> that wraps, and \<^verbatim>\<open>time_before\<close> compares two
  readings by the sign of their difference, which is the order of the unwrapped tick
  counts as long as they are less than half the range apart. The model counts ticks
  in \<open>nat\<close> and compares them with \<open><\<close>.
\<close>

record 's uart_port =
  serial_in :: "'s \<Rightarrow> nat \<Rightarrow> u8 \<times> 's"
  serial_out :: "'s \<Rightarrow> nat \<Rightarrow> u8 \<Rightarrow> 's"
  udelay :: "nat \<Rightarrow> 's \<Rightarrow> 's"
  mdelay :: "nat \<Rightarrow> 's \<Rightarrow> 's"
  cpu_relax :: "'s \<Rightarrow> 's"
  jiffies :: "'s \<Rightarrow> nat"
  msecs_to_jiffies :: "nat \<Rightarrow> nat"
  fifosize :: nat
  fcr :: u8

definition time_before :: "nat \<Rightarrow> nat \<Rightarrow> bool" where
  "time_before a b = (a < b)"

text \<open>
  The state a probe runs in: the machine, and the list of register writes issued so
  far, oldest first. The list is what a recording mock handle keeps; the machine
  never sees it.
\<close>

record 's world =
  hw :: 's
  wlog :: "(nat \<times> u8) list"

definition rd :: "'s uart_port \<Rightarrow> 's world \<Rightarrow> nat \<Rightarrow> u8 \<times> 's world" where
  "rd port w r = (case serial_in port (hw w) r of (v, s) \<Rightarrow> (v, w\<lparr>hw := s\<rparr>))"

definition wr :: "'s uart_port \<Rightarrow> 's world \<Rightarrow> nat \<Rightarrow> u8 \<Rightarrow> 's world" where
  "wr port w r v = w\<lparr>hw := serial_out port (hw w) r v, wlog := wlog w @ [(r, v)]\<rparr>"

definition delay_us :: "'s uart_port \<Rightarrow> nat \<Rightarrow> 's world \<Rightarrow> 's world" where
  "delay_us port n w = w\<lparr>hw := udelay port n (hw w)\<rparr>"

definition delay_ms :: "'s uart_port \<Rightarrow> nat \<Rightarrow> 's world \<Rightarrow> 's world" where
  "delay_ms port n w = w\<lparr>hw := mdelay port n (hw w)\<rparr>"

definition relax :: "'s uart_port \<Rightarrow> 's world \<Rightarrow> 's world" where
  "relax port w = w\<lparr>hw := cpu_relax port (hw w)\<rparr>"

definition now :: "'s uart_port \<Rightarrow> 's world \<Rightarrow> nat" where
  "now port w = jiffies port (hw w)"

section \<open>Results\<close>

text \<open>
  A probe returns a negative errno before it touches the port, or the text it formats
  into \<^verbatim>\<open>tmp\<close>: a decimal count or one of three fixed messages.
\<close>

datatype errno = ENODEV | EBUSY

datatype probe_result =
  Count int
  | RX_trigger_test_failed
  | RX_overflow_not_detected
  | TX_loopback_failed

section \<open>Resolving the device\<close>

text \<open>
  All four probes start with the same lookup of \<^verbatim>\<open>selected_dev\<close>. What the lookup
  finds is the input of the model: whether \<^verbatim>\<open>tty_find_polling_driver\<close> returned a
  driver, whether \<^verbatim>\<open>driver->ports[line]\<close> is set, whether the port and its two
  accessors are set, whether \<^verbatim>\<open>up_to_u8250p\<close> gave a port, and the two values of the
  busy test.
\<close>

record binding =
  driver_found :: bool
  tport_present :: bool
  port_ops_present :: bool
  u8250p_present :: bool
  tty_port_initialized :: bool
  tty_port_users :: int

definition port_lookup :: "binding \<Rightarrow> errno option" where
  "port_lookup b =
     (if \<not> driver_found b then Some ENODEV
      else if \<not> tport_present b then Some ENODEV
      else if \<not> port_ops_present b then Some ENODEV
      else if \<not> u8250p_present b then Some ENODEV
      else if tty_port_initialized b \<and> tty_port_users b > 0 then Some EBUSY
      else None)"

section \<open>Snapshot, baud setting and restore\<close>

record snapshot =
  old_lcr :: u8
  old_fcr :: u8
  old_mcr :: u8
  old_dl :: u32

text \<open>
  The five lines under \<^verbatim>\<open>/* Set baud to 115200 */\<close>, the same in every probe. C leaves
  the order of the two reads inside \<^verbatim>\<open>serial_in(DLL) | (serial_in(DLM) << 8)\<close>
  open; the model reads the low byte first.
\<close>

definition set_baud :: "'s uart_port \<Rightarrow> 's world \<Rightarrow> u32 \<times> 's world" where
  "set_baud port w =
     (let w1 = wr port w UART_LCR UART_LCR_CONF_MODE_A in
      case rd port w1 UART_DLL of (dll, w2) \<Rightarrow>
      case rd port w2 UART_DLM of (dlm, w3) \<Rightarrow>
      let dl = (ucast dll :: u32) OR push_bit 8 (ucast dlm :: u32);
          w4 = wr port w3 UART_DLL 1;
          w5 = wr port w4 UART_DLM 0;
          w6 = wr port w5 UART_LCR UART_LCR_WLEN8
      in (dl, w6))"

text \<open>The six restore writes, the same in every probe.\<close>

definition restore_writes :: "snapshot \<Rightarrow> (nat \<times> u8) list" where
  "restore_writes sn =
     [(UART_FCR, old_fcr sn),
      (UART_MCR, old_mcr sn),
      (UART_LCR, UART_LCR_CONF_MODE_A),
      (UART_DLL, ucast (old_dl sn AND 0xff)),
      (UART_DLM, ucast (drop_bit 8 (old_dl sn))),
      (UART_LCR, old_lcr sn)]"

definition restore_config :: "'s uart_port \<Rightarrow> snapshot \<Rightarrow> 's world \<Rightarrow> 's world" where
  "restore_config port sn w =
     (let w1 = wr port w UART_FCR (old_fcr sn);
          w2 = wr port w1 UART_MCR (old_mcr sn);
          w3 = wr port w2 UART_LCR UART_LCR_CONF_MODE_A;
          w4 = wr port w3 UART_DLL (ucast (old_dl sn AND 0xff));
          w5 = wr port w4 UART_DLM (ucast (drop_bit 8 (old_dl sn)))
      in wr port w5 UART_LCR (old_lcr sn))"

text \<open>
  The receive drain, \<^verbatim>\<open>while (serial_in(LSR) & UART_LSR_DR) serial_in(RX);\<close>. It has
  no bound: on a port that keeps the data-ready bit set it does not return, which is
  the value \<open>None\<close>.
\<close>

partial_function (option) drain_rx :: "'s uart_port \<Rightarrow> 's world \<Rightarrow> 's world option" where
  "drain_rx port w =
     (case rd port w UART_LSR of (lsr, w1) \<Rightarrow>
        if lsr AND UART_LSR_DR \<noteq> 0
        then drain_rx port (snd (rd port w1 UART_RX))
        else Some w1)"

section \<open>RX trigger probe\<close>

definition iir_is :: "u8 \<Rightarrow> u8 \<Rightarrow> bool" where
  "iir_is reason iir = (\<not> (iir AND 0x01 \<noteq> 0) \<and> iir AND 0x0E = reason)"

text \<open>One pass of the loop body up to the read of the interrupt identification.\<close>

definition rx_trig_iter :: "'s uart_port \<Rightarrow> 's world \<Rightarrow> u8 \<times> 's world" where
  "rx_trig_iter port w =
     rd port (delay_us port 100 (wr port w UART_TX 0x55)) UART_IIR"

function rx_trig_loop :: "'s uart_port \<Rightarrow> int \<Rightarrow> 's world \<Rightarrow> int \<times> 's world" where
  "rx_trig_loop port trig w =
     (if trig < 256 then
        (case rx_trig_iter port w of (iir, w1) \<Rightarrow>
           if iir_is UART_IIR_RDI iir then (trig, w1)
           else rx_trig_loop port (trig + 1) w1)
      else (trig, w))"
  by pat_completeness auto
termination
  by (relation "measure (\<lambda>(port, trig, w). nat (256 - trig))") auto

definition rx_trig_enter :: "'s uart_port \<Rightarrow> 's world \<Rightarrow> snapshot \<times> 's world" where
  "rx_trig_enter port w =
     (case rd port w UART_LCR of (lcr, w1) \<Rightarrow>
      case rd port w1 UART_MCR of (mcr, w2) \<Rightarrow>
      let w3 = wr port w2 UART_FCR (fcr port OR UART_FCR_CLEAR_RCVR OR UART_FCR_CLEAR_XMIT);
          w4 = wr port w3 UART_MCR (mcr OR UART_MCR_LOOP)
      in case set_baud port w4 of (dl, w5) \<Rightarrow>
        (\<lparr>old_lcr = lcr, old_fcr = fcr port, old_mcr = mcr, old_dl = dl\<rparr>, w5))"

definition rx_trig_result :: "int \<Rightarrow> probe_result" where
  "rx_trig_result trig = (if trig \<ge> 256 then RX_trigger_test_failed else Count trig)"

definition rx_trig_probe_read ::
  "'s uart_port \<Rightarrow> binding \<Rightarrow> 's world \<Rightarrow> ((errno + probe_result) \<times> 's world) option" where
  "rx_trig_probe_read port b w =
     (case port_lookup b of
        Some e \<Rightarrow> Some (Inl e, w)
      | None \<Rightarrow>
         (case rx_trig_enter port w of (sn, w1) \<Rightarrow>
          let w2 = wr port w1 UART_IER UART_IER_RDI in
          case rx_trig_loop port 1 w2 of (trig, w3) \<Rightarrow>
          let w4 = wr port w3 UART_IER 0x00 in
          map_option (\<lambda>w5. (Inr (rx_trig_result trig), restore_config port sn w5))
            (drain_rx port w4)))"

section \<open>RX FIFO size probe\<close>

text \<open>
  The RX and TX FIFO size probes share their entry sequence line for line: the FIFO
  control write carries the enable bit and both clear bits, whatever the shadow holds.
\<close>

definition fifo_enter :: "'s uart_port \<Rightarrow> 's world \<Rightarrow> snapshot \<times> 's world" where
  "fifo_enter port w =
     (case rd port w UART_LCR of (lcr, w1) \<Rightarrow>
      case rd port w1 UART_MCR of (mcr, w2) \<Rightarrow>
      let w3 = wr port w2 UART_FCR
                 (UART_FCR_ENABLE_FIFO OR UART_FCR_CLEAR_RCVR OR UART_FCR_CLEAR_XMIT);
          w4 = wr port w3 UART_MCR (mcr OR UART_MCR_LOOP)
      in case set_baud port w4 of (dl, w5) \<Rightarrow>
        (\<lparr>old_lcr = lcr, old_fcr = fcr port, old_mcr = mcr, old_dl = dl\<rparr>, w5))"

definition rx_fifo_iter :: "'s uart_port \<Rightarrow> 's world \<Rightarrow> u8 \<times> 's world" where
  "rx_fifo_iter port w =
     rd port (delay_ms port 1 (wr port w UART_TX 0xff)) UART_LSR"

text \<open>
  The loop returns \<^verbatim>\<open>rx_fifo_size\<close>: the index \<^verbatim>\<open>count_tx\<close> at the break, or the
  initial 0 when the bound is reached.
\<close>

function rx_fifo_loop :: "'s uart_port \<Rightarrow> int \<Rightarrow> 's world \<Rightarrow> int \<times> 's world" where
  "rx_fifo_loop port count_tx w =
     (if count_tx < FIFO_SIZE_MAX then
        (case rx_fifo_iter port w of (lsr, w1) \<Rightarrow>
           if lsr AND UART_LSR_OE \<noteq> 0 then (count_tx, w1)
           else rx_fifo_loop port (count_tx + 1) w1)
      else (0, w))"
  by pat_completeness auto
termination
  by (relation "measure (\<lambda>(port, count_tx, w). nat (FIFO_SIZE_MAX - count_tx))") auto

definition rx_fifo_result :: "int \<Rightarrow> probe_result" where
  "rx_fifo_result rx_fifo_size =
     (if rx_fifo_size = 0 then RX_overflow_not_detected else Count rx_fifo_size)"

definition rx_fifo_size_read ::
  "'s uart_port \<Rightarrow> binding \<Rightarrow> 's world \<Rightarrow> (errno + probe_result) \<times> 's world" where
  "rx_fifo_size_read port b w =
     (case port_lookup b of
        Some e \<Rightarrow> (Inl e, w)
      | None \<Rightarrow>
         (case fifo_enter port w of (sn, w1) \<Rightarrow>
          case rx_fifo_loop port 0 w1 of (rx_fifo_size, w2) \<Rightarrow>
          (Inr (rx_fifo_result rx_fifo_size), restore_config port sn w2)))"

section \<open>TX FIFO size probe\<close>

function tx_fifo_fill :: "'s uart_port \<Rightarrow> int \<Rightarrow> int \<Rightarrow> 's world \<Rightarrow> int \<times> 's world" where
  "tx_fifo_fill port i tx_count w =
     (if i < FIFO_SIZE_MAX
      then tx_fifo_fill port (i + 1) (tx_count + 1) (wr port w UART_TX 0xFF)
      else (tx_count, w))"
  by pat_completeness auto
termination
  by (relation "measure (\<lambda>(port, i, tx_count, w). nat (FIFO_SIZE_MAX - i))") auto

text \<open>
  The counting loop runs until the deadline or until \<^verbatim>\<open>rx_count\<close> reaches
  \<^verbatim>\<open>tx_count\<close>. Whether it ends is up to the clock, so it is a partial function.
\<close>

partial_function (option) tx_fifo_loop ::
  "'s uart_port \<Rightarrow> nat \<Rightarrow> int \<Rightarrow> int \<Rightarrow> 's world \<Rightarrow> (int \<times> 's world) option" where
  "tx_fifo_loop port deadline tx_count rx_count w =
     (if time_before (now port w) deadline \<and> rx_count < tx_count then
        (case rd port w UART_LSR of (lsr, w1) \<Rightarrow>
           if lsr AND UART_LSR_DR \<noteq> 0 then
             (case rd port w1 UART_RX of (val, w2) \<Rightarrow>
                tx_fifo_loop port deadline tx_count
                  (if val = 0xFF then rx_count + 1 else rx_count) w2)
           else tx_fifo_loop port deadline tx_count rx_count (relax port w1))
      else Some (rx_count, w))"

definition tx_result :: "int \<Rightarrow> probe_result" where
  "tx_result n = (if n = 0 then TX_loopback_failed else Count n)"

text \<open>
  The declaration \<^verbatim>\<open>int line, i , rx_count, tx_count = 0;\<close> initialises
  \<^verbatim>\<open>tx_count\<close> only. What \<^verbatim>\<open>rx_count\<close> holds when the counting loop first reads it
  is not fixed by the program; it is the argument \<open>rx_count0\<close>.
\<close>

definition tx_fifo_size_read ::
  "'s uart_port \<Rightarrow> int \<Rightarrow> binding \<Rightarrow> 's world \<Rightarrow> ((errno + probe_result) \<times> 's world) option" where
  "tx_fifo_size_read port rx_count0 b w =
     (case port_lookup b of
        Some e \<Rightarrow> Some (Inl e, w)
      | None \<Rightarrow>
         (case fifo_enter port w of (sn, w1) \<Rightarrow>
          case tx_fifo_fill port 0 0 w1 of (tx_count, w2) \<Rightarrow>
          let w3 = delay_ms port 50 w2;
              deadline = now port w3 + msecs_to_jiffies port 500
          in map_option (\<lambda>(rx_count, w4). (Inr (tx_result rx_count), restore_config port sn w4))
               (tx_fifo_loop port deadline tx_count rx_count0 w3)))"

section \<open>TX trigger probe\<close>

text \<open>
  The entry sequence writes 0 to the line control register before it reads the other
  registers. \<^verbatim>\<open>old_fcr\<close> is read through \<^verbatim>\<open>serial_in\<close> at the offset of the FIFO
  control register, and the interrupt enable register is saved too. The receive queue
  is drained before the baud is set.
\<close>

definition tx_trig_enter ::
  "'s uart_port \<Rightarrow> 's world \<Rightarrow> ((snapshot \<times> u8) \<times> 's world) option" where
  "tx_trig_enter port w =
     (case rd port w UART_LCR of (lcr, w1) \<Rightarrow>
      let w2 = wr port w1 UART_LCR 0x00 in
      case rd port w2 UART_FCR of (fcr0, w3) \<Rightarrow>
      case rd port w3 UART_MCR of (mcr, w4) \<Rightarrow>
      case rd port w4 UART_IER of (ier, w5) \<Rightarrow>
      let w6 = wr port w5 UART_FCR
                 (UART_FCR_ENABLE_FIFO OR UART_FCR_CLEAR_RCVR OR UART_FCR_CLEAR_XMIT
                    OR UART_FCR_TRIGGER_1);
          w7 = wr port w6 UART_MCR (mcr OR UART_MCR_LOOP)
      in map_option
           (\<lambda>w8. case set_baud port w8 of (dl, w9) \<Rightarrow>
              ((\<lparr>old_lcr = lcr, old_fcr = fcr0, old_mcr = mcr, old_dl = dl\<rparr>, ier), w9))
           (drain_rx port w7))"

text \<open>\<^verbatim>\<open>for (int i = 0; i <= port->fifosize; i++)\<close>: one write more than the rated size.\<close>

function tx_trig_fill :: "'s uart_port \<Rightarrow> nat \<Rightarrow> 's world \<Rightarrow> 's world" where
  "tx_trig_fill port i w =
     (if i \<le> fifosize port
      then tx_trig_fill port (i + 1) (wr port w UART_TX 0xFF)
      else w)"
  by pat_completeness auto
termination
  by (relation "measure (\<lambda>(port, i, w). fifosize port + 1 - i)") auto

text \<open>
  One pass of the counting loop up to the read of the interrupt identification: the
  value read, the count and the state after it.
\<close>

definition tx_trig_iter :: "'s uart_port \<Rightarrow> int \<Rightarrow> 's world \<Rightarrow> u8 \<times> int \<times> 's world" where
  "tx_trig_iter port rx_count w =
     (case rd port w UART_LSR of (lsr, w1) \<Rightarrow>
      case (if lsr AND UART_LSR_DR \<noteq> 0
            then (rx_count + 1, snd (rd port w1 UART_RX))
            else (rx_count, w1)) of (rx_count', w2) \<Rightarrow>
      case rd port w2 UART_IIR of (iir, w3) \<Rightarrow> (iir, rx_count', w3))"

text \<open>
  The loop returns what it assigned to \<^verbatim>\<open>trig\<close>, if anything: \<^verbatim>\<open>trig\<close> is assigned
  at the break only.
\<close>

partial_function (option) tx_trig_loop ::
  "'s uart_port \<Rightarrow> nat \<Rightarrow> int \<Rightarrow> 's world \<Rightarrow> (int option \<times> int \<times> 's world) option" where
  "tx_trig_loop port deadline rx_count w =
     (if time_before (now port w) deadline then
        (case tx_trig_iter port rx_count w of (iir, rx_count', w1) \<Rightarrow>
           if iir_is UART_IIR_THRI iir then Some (Some rx_count', rx_count', w1)
           else tx_trig_loop port deadline rx_count' (relax port w1))
      else Some (None, rx_count, w))"

text \<open>
  The declaration \<^verbatim>\<open>int line, trig, rx_count = 0;\<close> initialises \<^verbatim>\<open>rx_count\<close> only.
  When the loop ends at the deadline, \<^verbatim>\<open>trig\<close> still holds whatever it held at
  entry; that value is the argument \<open>trig0\<close>.
\<close>

definition tx_trig_probe_read ::
  "'s uart_port \<Rightarrow> int \<Rightarrow> binding \<Rightarrow> 's world \<Rightarrow> ((errno + probe_result) \<times> 's world) option" where
  "tx_trig_probe_read port trig0 b w =
     (case port_lookup b of
        Some e \<Rightarrow> Some (Inl e, w)
      | None \<Rightarrow>
         Option.bind (tx_trig_enter port w) (\<lambda>((sn, old_ier), w1).
         let w2 = wr port w1 UART_IER UART_IER_THRI;
             w3 = tx_trig_fill port 0 w2;
             deadline = now port w3 + msecs_to_jiffies port 1500
         in Option.bind (tx_trig_loop port deadline 0 w3) (\<lambda>(assigned, rx_count, w4).
         let trig = (case assigned of Some t \<Rightarrow> t | None \<Rightarrow> trig0);
             w5 = wr port w4 UART_IER old_ier
         in map_option (\<lambda>w6. (Inr (tx_result trig), restore_config port sn w6))
              (drain_rx port w5))))"

section \<open>What a recording handle holds\<close>

text \<open>
  A handle that records register writes keeps one byte per register. Offsets 0 and 1
  go to the divisor latch while bit 7 (DLAB) of the recorded line control value is
  set, and to the transmit and interrupt enable registers otherwise. \<open>recorded R ws\<close>
  is the register file after the writes \<open>ws\<close>, starting from \<open>R\<close>.
\<close>

record regfile =
  r_thr :: u8
  r_ier :: u8
  r_fcr :: u8
  r_lcr :: u8
  r_mcr :: u8
  r_dll :: u8
  r_dlm :: u8

definition record_write :: "regfile \<Rightarrow> nat \<times> u8 \<Rightarrow> regfile" where
  "record_write R e =
     (case e of (off, v) \<Rightarrow>
        if off = 0 then (if r_lcr R AND 0x80 \<noteq> 0 then R\<lparr>r_dll := v\<rparr> else R\<lparr>r_thr := v\<rparr>)
        else if off = 1 then (if r_lcr R AND 0x80 \<noteq> 0 then R\<lparr>r_dlm := v\<rparr> else R\<lparr>r_ier := v\<rparr>)
        else if off = 2 then R\<lparr>r_fcr := v\<rparr>
        else if off = 3 then R\<lparr>r_lcr := v\<rparr>
        else if off = 4 then R\<lparr>r_mcr := v\<rparr>
        else R)"

definition recorded :: "regfile \<Rightarrow> (nat \<times> u8) list \<Rightarrow> regfile" where
  "recorded R ws = foldl record_write R ws"

definition recorded_snapshot :: "regfile \<Rightarrow> snapshot" where
  "recorded_snapshot R =
     \<lparr>old_lcr = r_lcr R, old_fcr = r_fcr R, old_mcr = r_mcr R,
      old_dl = (ucast (r_dll R) :: u32) OR push_bit 8 (ucast (r_dlm R) :: u32)\<rparr>"

definition dl_pair :: "u32 \<Rightarrow> bool" where
  "dl_pair dl = (\<exists>(a :: u8) (b :: u8). dl = (ucast a :: u32) OR push_bit 8 (ucast b :: u32))"


section \<open>Inputs for the examples\<close>

text \<open>Two lookups that fail: no driver at all, and a port that is open.\<close>

definition absent_binding :: binding where
  "absent_binding =
     \<lparr>driver_found = False, tport_present = False, port_ops_present = False,
      u8250p_present = False, tty_port_initialized = False, tty_port_users = 0\<rparr>"

definition busy_binding :: binding where
  "busy_binding =
     \<lparr>driver_found = True, tport_present = True, port_ops_present = True,
      u8250p_present = True, tty_port_initialized = True, tty_port_users = 1\<rparr>"


text \<open>
  A small mock port. It counts ticks (one per register access, a thousand per second),
  tracks DLAB, and counts the bytes written to the transmit register and the reads of
  the receive register. What the interrupt identification and line status registers
  return is given by two functions of that state.
\<close>

record mock =
  clk :: nat
  dlab :: bool
  sent :: nat
  drained :: nat

definition mock_in :: "(mock \<Rightarrow> u8) \<Rightarrow> (mock \<Rightarrow> u8) \<Rightarrow> mock \<Rightarrow> nat \<Rightarrow> u8 \<times> mock" where
  "mock_in iirf lsrf s r =
     (if r = 2 then iirf s else if r = 5 then lsrf s else 0,
      s\<lparr>clk := clk s + 1,
        drained := (if r = 0 \<and> \<not> dlab s then drained s + 1 else drained s)\<rparr>)"

definition mock_out :: "mock \<Rightarrow> nat \<Rightarrow> u8 \<Rightarrow> mock" where
  "mock_out s r v =
     s\<lparr>clk := clk s + 1,
       dlab := (if r = 3 then v AND 0x80 \<noteq> 0 else dlab s),
       sent := (if r = 0 \<and> \<not> dlab s then sent s + 1 else sent s)\<rparr>"

definition mock_port :: "(mock \<Rightarrow> u8) \<Rightarrow> (mock \<Rightarrow> u8) \<Rightarrow> nat \<Rightarrow> u8 \<Rightarrow> mock uart_port" where
  "mock_port iirf lsrf depth shadow =
     \<lparr>serial_in = mock_in iirf lsrf,
      serial_out = mock_out,
      udelay = (\<lambda>n s. s),
      mdelay = (\<lambda>n s. s\<lparr>clk := clk s + n\<rparr>),
      cpu_relax = (\<lambda>s. s),
      jiffies = clk,
      msecs_to_jiffies = (\<lambda>m. m),
      fifosize = depth,
      fcr = shadow\<rparr>"

definition quiet_port :: "mock uart_port" where
  "quiet_port = mock_port (\<lambda>s. 0xC1) (\<lambda>s. 0x60) 16 0xC1"

definition w0 :: "mock world" where
  "w0 = \<lparr>hw = \<lparr>clk = 0, dlab = False, sent = 0, drained = 0\<rparr>, wlog = []\<rparr>"


section \<open>The write list of each phase\<close>

lemma wlog_rd [simp]: "wlog (snd (rd port w r)) = wlog w"
  by (simp add: rd_def split: prod.splits)

lemma wlog_wr [simp]: "wlog (wr port w r v) = wlog w @ [(r, v)]"
  by (simp add: wr_def)

lemma wlog_delay_us [simp]: "wlog (delay_us port n w) = wlog w"
  by (simp add: delay_us_def)

lemma wlog_delay_ms [simp]: "wlog (delay_ms port n w) = wlog w"
  by (simp add: delay_ms_def)

lemma wlog_relax [simp]: "wlog (relax port w) = wlog w"
  by (simp add: relax_def)

lemma wlog_rd_eq: "rd port w r = (v, w') \<Longrightarrow> wlog w' = wlog w"
  using wlog_rd [of port w r] by simp

lemma wlog_set_baud:
  "wlog (snd (set_baud port w)) =
     wlog w @ [(UART_LCR, UART_LCR_CONF_MODE_A), (UART_DLL, 1), (UART_DLM, 0),
               (UART_LCR, UART_LCR_WLEN8)]"
  by (simp add: set_baud_def Let_def wlog_rd_eq split: prod.splits)

lemma wlog_restore_config:
  "wlog (restore_config port sn w) = wlog w @ restore_writes sn"
  by (simp add: restore_config_def restore_writes_def Let_def)

lemmas drain_rx_induct = drain_rx.raw_induct [rotated 1, consumes 1, case_names step]

lemma drain_rx_wlog: "drain_rx port w = Some w' \<Longrightarrow> wlog w' = wlog w"
proof (induction rule: drain_rx_induct)
  case (step drain port w w')
  then show ?case
    by (auto split: prod.splits if_splits dest!: wlog_rd_eq)
qed


lemma mask8_u32: "(0xff :: u32) = mask 8"
  by (simp add: mask_eq_exp_minus_1)

lemma dl_low: "ucast (((ucast (a :: u8) :: u32) OR push_bit 8 (ucast (b :: u8) :: u32)) AND 0xff) = a"
  unfolding mask8_u32
  by (rule bit_word_eqI) (auto simp: bit_simps dest: bit_imp_le_length)

lemma dl_high: "ucast (drop_bit 8 ((ucast (a :: u8) :: u32) OR push_bit 8 (ucast (b :: u8) :: u32))) = b"
  by (rule bit_word_eqI) (auto simp: bit_simps dest: bit_imp_le_length)

lemma set_baud_dl_pair: "dl_pair (fst (set_baud port w))"
  by (auto simp: set_baud_def Let_def dl_pair_def split: prod.splits)

lemma recorded_append: "recorded R (xs @ ys) = recorded (recorded R xs) ys"
  by (simp add: recorded_def)

lemma recorded_restore_writes:
  assumes "dl_pair (old_dl sn)"
  shows "recorded_snapshot (recorded R (restore_writes sn)) = sn"
proof -
  from assms obtain a :: u8 and b :: u8 where dl: "old_dl sn = (ucast a :: u32) OR push_bit 8 (ucast b :: u32)"
    by (auto simp: dl_pair_def)
  have lo: "ucast (old_dl sn AND 0xff) = a"
    unfolding dl by (rule dl_low)
  have hi: "ucast (drop_bit 8 (old_dl sn)) = b"
    unfolding dl by (rule dl_high)
  show ?thesis
    by (simp add: recorded_def restore_writes_def record_write_def recorded_snapshot_def
        uart_reg_defs uart_bit_defs lo hi dl [symmetric])
qed


declare rx_trig_loop.simps [simp del]
declare rx_fifo_loop.simps [simp del]
declare tx_fifo_fill.simps [simp del]
declare tx_trig_fill.simps [simp del]

lemma wlog_rx_trig_iter: "wlog (snd (rx_trig_iter port w)) = wlog w @ [(UART_TX, 0x55)]"
  by (simp add: rx_trig_iter_def)

lemma wlog_rx_fifo_iter: "wlog (snd (rx_fifo_iter port w)) = wlog w @ [(UART_TX, 0xff)]"
  by (simp add: rx_fifo_iter_def)

lemma rx_trig_loop_wlog:
  "trig \<le> 256 \<Longrightarrow> rx_trig_loop port trig w = (t, w') \<Longrightarrow>
     trig \<le> t \<and> t \<le> 256 \<and>
     wlog w' = wlog w @ replicate (nat (min t 255 - trig + 1)) (UART_TX, 0x55)"
proof (induction port trig w rule: rx_trig_loop.induct)
  case (1 port trig w)
  show ?case
  proof (cases "trig < 256")
    case False
    with "1.prems" show ?thesis
      by (simp add: rx_trig_loop.simps)
  next
    case True
    obtain iir w1 where it: "rx_trig_iter port w = (iir, w1)"
      by (cases "rx_trig_iter port w")
    then have w1: "wlog w1 = wlog w @ [(UART_TX, 0x55)]"
      using wlog_rx_trig_iter [of port w] by simp
    show ?thesis
    proof (cases "iir_is UART_IIR_RDI iir")
      case True
      with \<open>trig < 256\<close> it "1.prems" w1 show ?thesis
        by (simp add: rx_trig_loop.simps)
    next
      case False
      with \<open>trig < 256\<close> it "1.prems" have rec: "rx_trig_loop port (trig + 1) w1 = (t, w')"
        by (simp add: rx_trig_loop.simps)
      from "1.IH" [OF \<open>trig < 256\<close> it [symmetric] False _ rec] \<open>trig < 256\<close>
      have ih: "trig + 1 \<le> t" "t \<le> 256"
        "wlog w' = wlog w1 @ replicate (nat (min t 255 - (trig + 1) + 1)) (UART_TX, 0x55)"
        by simp_all
      have "nat (min t 255 - trig + 1) = Suc (nat (min t 255 - (trig + 1) + 1))"
        using ih(1,2) \<open>trig < 256\<close> by simp
      with ih w1 show ?thesis
        by (simp add: replicate_append_same)
    qed
  qed
qed


lemma rx_fifo_loop_wlog:
  "\<exists>n. wlog (snd (rx_fifo_loop port c w)) = wlog w @ replicate n (UART_TX, 0xff)"
proof (induction port c w rule: rx_fifo_loop.induct)
  case (1 port c w)
  show ?case
  proof (cases "c < FIFO_SIZE_MAX")
    case False
    then have "wlog (snd (rx_fifo_loop port c w)) = wlog w @ replicate 0 (UART_TX, 0xff)"
      by (simp add: rx_fifo_loop.simps)
    then show ?thesis by blast
  next
    case True
    obtain lsr w1 where it: "rx_fifo_iter port w = (lsr, w1)"
      by (cases "rx_fifo_iter port w")
    then have w1: "wlog w1 = wlog w @ [(UART_TX, 0xff)]"
      using wlog_rx_fifo_iter [of port w] by simp
    show ?thesis
    proof (cases "lsr AND UART_LSR_OE \<noteq> 0")
      case True
      with \<open>c < FIFO_SIZE_MAX\<close> it w1
      have "wlog (snd (rx_fifo_loop port c w)) = wlog w @ replicate 1 (UART_TX, 0xff)"
        by (simp add: rx_fifo_loop.simps)
      then show ?thesis by blast
    next
      case False
      from "1.IH" [OF \<open>c < FIFO_SIZE_MAX\<close> it [symmetric] False]
      obtain n where "wlog (snd (rx_fifo_loop port (c + 1) w1)) = wlog w1 @ replicate n (UART_TX, 0xff)"
        by blast
      with False \<open>c < FIFO_SIZE_MAX\<close> it w1
      have "wlog (snd (rx_fifo_loop port c w)) = wlog w @ replicate (Suc n) (UART_TX, 0xff)"
        by (simp add: rx_fifo_loop.simps [of port c w] replicate_append_same)
      then show ?thesis by blast
    qed
  qed
qed

lemma tx_fifo_fill_eq:
  "i \<le> FIFO_SIZE_MAX \<Longrightarrow>
     fst (tx_fifo_fill port i c w) = c + (FIFO_SIZE_MAX - i) \<and>
     wlog (snd (tx_fifo_fill port i c w)) =
       wlog w @ replicate (nat (FIFO_SIZE_MAX - i)) (UART_TX, 0xFF)"
proof (induction port i c w rule: tx_fifo_fill.induct)
  case (1 port i c w)
  show ?case
  proof (cases "i < FIFO_SIZE_MAX")
    case False
    with "1.prems" show ?thesis
      by (simp add: tx_fifo_fill.simps)
  next
    case True
    have "nat (FIFO_SIZE_MAX - i) = Suc (nat (FIFO_SIZE_MAX - (i + 1)))"
      using True by simp
    with "1.IH" [OF True] True show ?thesis
      by (simp add: tx_fifo_fill.simps [of port i c w] replicate_append_same)
  qed
qed

lemma tx_trig_fill_wlog:
  "wlog (tx_trig_fill port i w) = wlog w @ replicate (fifosize port + 1 - i) (UART_TX, 0xFF)"
proof (induction port i w rule: tx_trig_fill.induct)
  case (1 port i w)
  show ?case
  proof (cases "i \<le> fifosize port")
    case False
    then show ?thesis
      by (simp add: tx_trig_fill.simps)
  next
    case True
    have "fifosize port + 1 - i = Suc (fifosize port + 1 - (i + 1))"
      using True by simp
    with "1.IH" [OF True] True show ?thesis
      by (simp add: tx_trig_fill.simps [of port i w] replicate_append_same)
  qed
qed

lemmas tx_fifo_loop_induct = tx_fifo_loop.raw_induct [rotated 1, consumes 1, case_names step]
lemmas tx_trig_loop_induct = tx_trig_loop.raw_induct [rotated 1, consumes 1, case_names step]

lemma tx_fifo_loop_wlog:
  "tx_fifo_loop port d tx_count c w = Some y \<Longrightarrow> wlog (snd y) = wlog w"
proof (induction rule: tx_fifo_loop_induct)
  case (step loop port d tx_count c w y)
  show ?case
  proof (cases "time_before (now port w) d \<and> c < tx_count")
    case False
    with step.hyps show ?thesis by auto
  next
    case True
    obtain lsr w1 where r1: "rd port w UART_LSR = (lsr, w1)"
      by (cases "rd port w UART_LSR")
    obtain val w2 where r2: "rd port w1 UART_RX = (val, w2)"
      by (cases "rd port w1 UART_RX")
    show ?thesis
    proof (cases "lsr AND UART_LSR_DR \<noteq> 0")
      case dr: True
      with True r1 r2 step.hyps
      have "loop port d tx_count (if val = 0xFF then c + 1 else c) w2 = Some y"
        by simp
      from step.IH [OF this] wlog_rd_eq [OF r1] wlog_rd_eq [OF r2] show ?thesis
        by simp
    next
      case False
      with True r1 step.hyps have "loop port d tx_count c (relax port w1) = Some y"
        by simp
      from step.IH [OF this] wlog_rd_eq [OF r1] show ?thesis
        by simp
    qed
  qed
qed

lemma wlog_tx_trig_iter: "wlog (snd (snd (tx_trig_iter port c w))) = wlog w"
  by (auto simp: tx_trig_iter_def split: prod.splits dest!: wlog_rd_eq) 

lemma tx_trig_loop_wlog:
  "tx_trig_loop port d c w = Some y \<Longrightarrow> wlog (snd (snd y)) = wlog w"
proof (induction rule: tx_trig_loop_induct)
  case (step loop port d c w y)
  show ?case
  proof (cases "time_before (now port w) d")
    case False
    with step.hyps show ?thesis by auto
  next
    case True
    obtain iir c' w1 where it: "tx_trig_iter port c w = (iir, c', w1)"
      by (cases "tx_trig_iter port c w") auto
    then have w1: "wlog w1 = wlog w"
      using wlog_tx_trig_iter [of port c w] by simp
    show ?thesis
    proof (cases "iir_is UART_IIR_THRI iir")
      case True
      with \<open>time_before (now port w) d\<close> it step.hyps w1 show ?thesis
        by auto
    next
      case False
      with \<open>time_before (now port w) d\<close> it step.hyps
      have "loop port d c' (relax port w1) = Some y"
        by simp
      from step.IH [OF this] w1 show ?thesis
        by simp
    qed
  qed
qed



section \<open>Lookup failures\<close>

text \<open>
  C2. In every probe, when the lookup of the device fails (no driver, no port, no
  accessors, not an 8250 port) or the port is initialised and has users, the probe
  returns the error at once: \<open>ENODEV\<close> or \<open>EBUSY\<close>. The state it returns is the
  state it was called in, so no register has been written (or read).
\<close>

theorem lookup_failure_issues_no_write:
  assumes "\<not> driver_found b \<or> \<not> tport_present b \<or> \<not> port_ops_present b
             \<or> \<not> u8250p_present b
             \<or> (tty_port_initialized b \<and> tty_port_users b > 0)"
  shows "\<exists>e. e = (if driver_found b \<and> tport_present b \<and> port_ops_present b
                     \<and> u8250p_present b then EBUSY else ENODEV)
           \<and> rx_trig_probe_read port b w = Some (Inl e, w)
           \<and> rx_fifo_size_read port b w = (Inl e, w)
           \<and> tx_fifo_size_read port rx_count0 b w = Some (Inl e, w)
           \<and> tx_trig_probe_read port trig0 b w = Some (Inl e, w)"
  using assms
  by (auto simp: port_lookup_def rx_trig_probe_read_def rx_fifo_size_read_def
      tx_fifo_size_read_def tx_trig_probe_read_def)


theorem lookup_failure_issues_no_write_witness:
  "rx_trig_probe_read quiet_port busy_binding w0 = Some (Inl EBUSY, w0)
   \<and> rx_fifo_size_read quiet_port busy_binding w0 = (Inl EBUSY, w0)
   \<and> tx_fifo_size_read quiet_port 0 busy_binding w0 = Some (Inl EBUSY, w0)
   \<and> tx_trig_probe_read quiet_port 0 busy_binding w0 = Some (Inl EBUSY, w0)
   \<and> rx_trig_probe_read quiet_port absent_binding w0 = Some (Inl ENODEV, w0)"
  using lookup_failure_issues_no_write [of busy_binding quiet_port w0 0 0]
    lookup_failure_issues_no_write [of absent_binding quiet_port w0 0 0]
  by (simp add: busy_binding_def absent_binding_def)


end
